theory Spec2Isabelle
  imports Main
begin

section \<open>The finite state machine of FSM.h\<close>

text \<open>
  The class template \<^verbatim>\<open>FSM<State, Initial, Trigger>\<close> keeps a current state and a
  \<^verbatim>\<open>std::map<State, std::vector<Trans>>\<close>. The two type parameters become type
  variables \<open>'s\<close> and \<open>'t\<close>; the non-type template parameter \<^verbatim>\<open>Initial\<close> becomes an
  explicit argument of the operations that mention it.

  Everything outside the machine that an action may read or change (the standard output
  of the header's example, a counter, ...) is the world \<open>'w\<close>, passed through every call.
\<close>

subsection \<open>Calls that may not return\<close>

text \<open>
  A call either returns, or leaves by an exception, or never returns to its caller
  because the program ends (\<^verbatim>\<open>std::terminate\<close>, \<^verbatim>\<open>std::abort\<close>).
\<close>

datatype 'r outcome = Returns 'r | Throws | Terminates

text \<open>
  A function declared \<^verbatim>\<open>noexcept\<close>: an exception that would leave its body calls
  \<^verbatim>\<open>std::terminate\<close> instead.
\<close>

definition noexcept :: "'r outcome \<Rightarrow> 'r outcome" where
  "noexcept body =
     (case body of Returns r \<Rightarrow> Returns r | Throws \<Rightarrow> Terminates | Terminates \<Rightarrow> Terminates)"

subsection \<open>Transitions and the machine\<close>

text \<open>
  \<^verbatim>\<open>std::function<void()> m_action\<close> takes no argument; what it works on is what its
  closure captured. That is the world and, through a captured reference and
  \<^verbatim>\<open>GetState()\<close>, the machine's current state at the moment of the call, so a callable
  is a function of both. \<open>None\<close> is the empty \<^verbatim>\<open>std::function\<close>. An action that
  calls a non-const member of the machine it belongs to is outside the model (the
  reference \<^verbatim>\<open>transition\<close> of the loop in \<^verbatim>\<open>Execute\<close> could dangle), and so is a failed
  allocation.
\<close>

type_synonym ('s, 'w) callable = "'s \<Rightarrow> 'w \<Rightarrow> 'w outcome"

record ('s, 't, 'w) Trans =
  m_originState :: 's
  m_destinationState :: 's
  m_trigger :: 't
  m_action :: "('s, 'w) callable option"

record ('s, 't, 'w) FSM =
  m_currentState :: 's
  m_transitions :: "'s \<rightharpoonup> ('s, 't, 'w) Trans list"

text \<open>
  \<^verbatim>\<open>std::function::operator()\<close>: calling an empty function object throws
  \<^verbatim>\<open>std::bad_function_call\<close>.
\<close>

definition function_call :: "('s, 'w) callable option \<Rightarrow> 's \<Rightarrow> 'w \<Rightarrow> 'w outcome" where
  "function_call f s w = (case f of None \<Rightarrow> Throws | Some g \<Rightarrow> g s w)"

subsection \<open>Constructors\<close>

text \<open>
  \<^verbatim>\<open>m_transitions[c.m_originState].emplace_back(c)\<close>: \<^verbatim>\<open>operator[]\<close> inserts an empty
  vector when the key is absent, then the transition is appended.
\<close>

definition emplace_back :: "('s, 't, 'w) Trans \<Rightarrow> ('s \<rightharpoonup> ('s, 't, 'w) Trans list)
    \<Rightarrow> ('s \<rightharpoonup> ('s, 't, 'w) Trans list)" where
  "emplace_back c m =
     m(m_originState c \<mapsto> (case m (m_originState c) of None \<Rightarrow> [] | Some v \<Rightarrow> v) @ [c])"

fun AddTransitions_loop :: "('s, 't, 'w) Trans list \<Rightarrow> ('s \<rightharpoonup> ('s, 't, 'w) Trans list)
    \<Rightarrow> ('s \<rightharpoonup> ('s, 't, 'w) Trans list)" where
  "AddTransitions_loop [] m = m"
| "AddTransitions_loop (c # cs) m = AddTransitions_loop cs (emplace_back c m)"

definition AddTransitions :: "('s, 't, 'w) Trans list \<Rightarrow> ('s, 't, 'w) FSM \<Rightarrow> ('s, 't, 'w) FSM" where
  "AddTransitions xi_collection fsm =
     fsm\<lparr>m_transitions := AddTransitions_loop xi_collection (m_transitions fsm)\<rparr>"

text \<open>
  The default constructor: \<^verbatim>\<open>FSM() : m_currentState(Initial), m_transitions() {}\<close>.
\<close>

definition FSM_default :: "'s \<Rightarrow> ('s, 't, 'w) FSM" where
  "FSM_default Initial = \<lparr>m_currentState = Initial, m_transitions = Map.empty\<rparr>"

text \<open>
  The three constructors from a collection (vector, initializer list, array) have the
  body \<^verbatim>\<open>{ AddTransitions(xi_transitions); }\<close> and no member initialiser:
  \<^verbatim>\<open>m_transitions\<close> is default-constructed (empty) and \<^verbatim>\<open>m_currentState\<close>, an
  enumeration, is left as it was in the object's storage. That value is the argument
  \<open>indeterminate\<close>; \<open>Initial\<close> is in scope and not used.
\<close>

definition FSM_collection :: "'s \<Rightarrow> 's \<Rightarrow> ('s, 't, 'w) Trans list \<Rightarrow> ('s, 't, 'w) FSM" where
  "FSM_collection Initial indeterminate xi_transitions =
     AddTransitions xi_transitions \<lparr>m_currentState = indeterminate, m_transitions = Map.empty\<rparr>"

subsection \<open>Member functions\<close>

definition GetState :: "('s, 't, 'w) FSM \<Rightarrow> 's" where
  "GetState fsm = m_currentState fsm"

definition SetState :: "'s \<Rightarrow> ('s, 't, 'w) FSM \<Rightarrow> ('s, 't, 'w) FSM" where
  "SetState xi_state fsm = fsm\<lparr>m_currentState := xi_state\<rparr>"

definition IsInitial :: "'s \<Rightarrow> ('s, 't, 'w) FSM \<Rightarrow> bool" where
  "IsInitial Initial fsm = (m_currentState fsm = Initial)"

text \<open>
  \<^verbatim>\<open>if (transition.m_action) transition.m_action();\<close>
\<close>

definition perform_action :: "('s, 't, 'w) Trans \<Rightarrow> 's \<Rightarrow> 'w \<Rightarrow> 'w outcome" where
  "perform_action transition s w =
     (if m_action transition \<noteq> None then function_call (m_action transition) s w
      else Returns w)"

text \<open>
  The range-based \<^verbatim>\<open>for\<close> of \<^verbatim>\<open>Execute\<close> over the current state's vector; falling
  out of the loop is the final \<^verbatim>\<open>return false\<close>. The result is the returned bool,
  the machine and the world.
\<close>

fun Execute_loop :: "'t \<Rightarrow> ('s, 't, 'w) Trans list \<Rightarrow> ('s, 't, 'w) FSM \<Rightarrow> 'w
    \<Rightarrow> (bool \<times> ('s, 't, 'w) FSM \<times> 'w) outcome" where
  "Execute_loop xi_trigger [] fsm w = Returns (False, fsm, w)"
| "Execute_loop xi_trigger (transition # rest) fsm w =
     (if xi_trigger \<noteq> m_trigger transition then Execute_loop xi_trigger rest fsm w
      else (case perform_action transition (m_currentState fsm) w of
              Returns w' \<Rightarrow>
                Returns (True, fsm\<lparr>m_currentState := m_destinationState transition\<rparr>, w')
            | Throws \<Rightarrow> Throws
            | Terminates \<Rightarrow> Terminates))"

definition Execute_body :: "'t \<Rightarrow> ('s, 't, 'w) FSM \<Rightarrow> 'w
    \<Rightarrow> (bool \<times> ('s, 't, 'w) FSM \<times> 'w) outcome" where
  "Execute_body xi_trigger fsm w =
     (case m_transitions fsm (m_currentState fsm) of
        None \<Rightarrow> Returns (False, fsm, w)
      | Some state_transitions \<Rightarrow> Execute_loop xi_trigger state_transitions fsm w)"

text \<open>
  \<^verbatim>\<open>bool Execute(Trigger xi_trigger) noexcept\<close>
\<close>

definition Execute :: "'t \<Rightarrow> ('s, 't, 'w) FSM \<Rightarrow> 'w
    \<Rightarrow> (bool \<times> ('s, 't, 'w) FSM \<times> 'w) outcome" where
  "Execute xi_trigger fsm w = noexcept (Execute_body xi_trigger fsm w)"

subsection \<open>A client calling the public interface\<close>

datatype ('s, 't, 'w) call =
    Call_AddTransitions "('s, 't, 'w) Trans list"
  | Call_GetState
  | Call_SetState 's
  | Call_IsInitial
  | Call_Execute 't

datatype 's returned = Void | State_value 's | Bool_value bool

fun invoke :: "'s \<Rightarrow> ('s, 't, 'w) call \<Rightarrow> ('s, 't, 'w) FSM \<Rightarrow> 'w
    \<Rightarrow> ('s returned \<times> ('s, 't, 'w) FSM \<times> 'w) outcome" where
  "invoke Initial (Call_AddTransitions xi_collection) fsm w =
     Returns (Void, AddTransitions xi_collection fsm, w)"
| "invoke Initial Call_GetState fsm w = Returns (State_value (GetState fsm), fsm, w)"
| "invoke Initial (Call_SetState xi_state) fsm w = Returns (Void, SetState xi_state fsm, w)"
| "invoke Initial Call_IsInitial fsm w = Returns (Bool_value (IsInitial Initial fsm), fsm, w)"
| "invoke Initial (Call_Execute xi_trigger) fsm w =
     (case Execute xi_trigger fsm w of
        Returns (success, fsm', w') \<Rightarrow> Returns (Bool_value success, fsm', w')
      | Throws \<Rightarrow> Throws
      | Terminates \<Rightarrow> Terminates)"

text \<open>
  A sequence of calls on one machine, one after the other, with the values they
  returned; it stops where a call does not return.
\<close>

fun run :: "'s \<Rightarrow> ('s, 't, 'w) call list \<Rightarrow> ('s, 't, 'w) FSM \<Rightarrow> 'w
    \<Rightarrow> ('s returned list \<times> ('s, 't, 'w) FSM \<times> 'w) outcome" where
  "run Initial [] fsm w = Returns ([], fsm, w)"
| "run Initial (c # cs) fsm w =
     (case invoke Initial c fsm w of
        Returns (r, fsm', w') \<Rightarrow>
          (case run Initial cs fsm' w' of
             Returns (rs, fsm'', w'') \<Rightarrow> Returns (r # rs, fsm'', w'')
           | Throws \<Rightarrow> Throws
           | Terminates \<Rightarrow> Terminates)
      | Throws \<Rightarrow> Throws
      | Terminates \<Rightarrow> Terminates)"

subsection \<open>Notions used to state the properties\<close>

text \<open>
  The first transition registered for the current state whose trigger is the given one.
\<close>

definition first_match :: "'t \<Rightarrow> ('s, 't, 'w) FSM \<Rightarrow> ('s, 't, 'w) Trans option" where
  "first_match trig fsm =
     (case m_transitions fsm (m_currentState fsm) of
        None \<Rightarrow> None
      | Some ts \<Rightarrow> find (\<lambda>x. m_trigger x = trig) ts)"

text \<open>The states that a registered transition names as its origin or its destination.\<close>

definition referenced :: "('s, 't, 'w) FSM \<Rightarrow> 's set" where
  "referenced fsm =
     {s. \<exists>ts x. ts \<in> ran (m_transitions fsm) \<and> x \<in> set ts
          \<and> (s = m_originState x \<or> s = m_destinationState x)}"

text \<open>The arguments of the \<^verbatim>\<open>SetState\<close> calls of a sequence.\<close>

fun SetState_arguments :: "('s, 't, 'w) call list \<Rightarrow> 's set" where
  "SetState_arguments [] = {}"
| "SetState_arguments (Call_SetState xi_state # cs) = insert xi_state (SetState_arguments cs)"
| "SetState_arguments (c # cs) = SetState_arguments cs"

subsection \<open>The example of the header\<close>

datatype States = A | B | C

datatype Triggers = a | b

text \<open>The world of the example is what was written to \<^verbatim>\<open>std::cout\<close>, line by line.\<close>

definition example_transitions :: "(States, Triggers, string list) Trans list" where
  "example_transitions =
     [\<lparr>m_originState = A, m_destinationState = B, m_trigger = a,
        m_action = Some (\<lambda>s out. Returns (out @ [''perform action when transitioning from A to B.'']))\<rparr>,
      \<lparr>m_originState = B, m_destinationState = C, m_trigger = b,
        m_action = Some (\<lambda>s out. Returns (out @ [''perform action when transitioning from B to C.'']))\<rparr>]"

text \<open>The calls of the example, with \<^verbatim>\<open>GetState()\<close> where the example asserts on it.\<close>

definition example_calls :: "(States, Triggers, string list) call list" where
  "example_calls =
     [Call_IsInitial, Call_Execute a, Call_GetState, Call_Execute b, Call_GetState,
      Call_SetState A, Call_IsInitial]"

subsection \<open>Two transitions with the same origin and trigger\<close>

text \<open>
  One has no action and leads to \<open>C\<close>; the other leads to \<open>B\<close> and its action counts its
  own invocations, the world being the counter. They are registered in either order.
\<close>

definition silent_to_C :: "(States, Triggers, nat) Trans" where
  "silent_to_C =
     \<lparr>m_originState = A, m_destinationState = C, m_trigger = a, m_action = None\<rparr>"

definition counting_to_B :: "(States, Triggers, nat) Trans" where
  "counting_to_B =
     \<lparr>m_originState = A, m_destinationState = B, m_trigger = a,
      m_action = Some (\<lambda>s n. Returns (Suc n))\<rparr>"

definition shadowed_fsm :: "(States, Triggers, nat) FSM" where
  "shadowed_fsm = AddTransitions [silent_to_C, counting_to_B] (FSM_default A)"

definition counting_fsm :: "(States, Triggers, nat) FSM" where
  "counting_fsm = AddTransitions [counting_to_B, silent_to_C] (FSM_default A)"

text \<open>
  A machine in which the counting transition is registered for \<open>A\<close> behind a transition
  with the other trigger.
\<close>

definition silent_on_b :: "(States, Triggers, nat) Trans" where
  "silent_on_b =
     \<lparr>m_originState = A, m_destinationState = C, m_trigger = b, m_action = None\<rparr>"

definition mixed_fsm :: "(States, Triggers, nat) FSM" where
  "mixed_fsm = AddTransitions [silent_on_b, counting_to_B] (FSM_default A)"

text \<open>
  Three transitions from \<open>A\<close> on \<open>a\<close>: one without action that stays in \<open>A\<close> is
  registered before the other two.
\<close>

definition silent_to_A :: "(States, Triggers, nat) Trans" where
  "silent_to_A =
     \<lparr>m_originState = A, m_destinationState = A, m_trigger = a, m_action = None\<rparr>"

definition triple_fsm :: "(States, Triggers, nat) FSM" where
  "triple_fsm = AddTransitions [silent_to_A, counting_to_B, silent_to_C] (FSM_default A)"

subsection \<open>A transition whose action throws\<close>

definition throwing_to_B :: "(States, Triggers, nat) Trans" where
  "throwing_to_B =
     \<lparr>m_originState = A, m_destinationState = B, m_trigger = a,
      m_action = Some (\<lambda>s n. Throws)\<rparr>"

definition throwing_fsm :: "(States, Triggers, nat) FSM" where
  "throwing_fsm = AddTransitions [throwing_to_B] (FSM_default A)"

text \<open>The same transition registered before a second one from \<open>A\<close> on \<open>a\<close>.\<close>

definition throwing_first_fsm :: "(States, Triggers, nat) FSM" where
  "throwing_first_fsm = AddTransitions [throwing_to_B, silent_to_C] (FSM_default A)"

section \<open>Properties\<close>

subsection \<open>What Execute computes\<close>

lemma Execute_loop_find:
  "Execute_loop trig ts fsm w =
     (case find (\<lambda>x. m_trigger x = trig) ts of
        None \<Rightarrow> Returns (False, fsm, w)
      | Some x \<Rightarrow>
          (case perform_action x (m_currentState fsm) w of
             Returns w' \<Rightarrow> Returns (True, fsm\<lparr>m_currentState := m_destinationState x\<rparr>, w')
           | Throws \<Rightarrow> Throws
           | Terminates \<Rightarrow> Terminates))"
  by (induction ts) auto

text \<open>
  \<^verbatim>\<open>Execute\<close> in one equation: nothing happens without a first match; with one, its
  action is performed in the state the machine is in, and only when that has returned is
  the destination assigned and \<open>True\<close> returned. An action that throws does not get the
  exception past \<^verbatim>\<open>noexcept\<close>.
\<close>

lemma Execute_first_match:
  "Execute trig fsm w =
     (case first_match trig fsm of
        None \<Rightarrow> Returns (False, fsm, w)
      | Some x \<Rightarrow>
          (case perform_action x (GetState fsm) w of
             Returns w' \<Rightarrow> Returns (True, SetState (m_destinationState x) fsm, w')
           | Throws \<Rightarrow> Terminates
           | Terminates \<Rightarrow> Terminates))"
  by (simp add: Execute_def Execute_body_def first_match_def noexcept_def Execute_loop_find
      GetState_def SetState_def split: option.splits outcome.splits)

lemma Execute_action_not_returning:
  assumes "first_match trig fsm = Some x" and "m_action x = Some action"
    and "action (GetState fsm) w = Throws \<or> action (GetState fsm) w = Terminates"
  shows "Execute trig fsm w = Terminates"
  using assms by (auto simp: Execute_first_match perform_action_def function_call_def)

lemma first_match_split:
  assumes "m_transitions fsm (m_currentState fsm) = Some (pre @ x # post)"
    and "\<forall>y\<in>set pre. m_trigger y \<noteq> trig" and "m_trigger x = trig"
  shows "first_match trig fsm = Some x"
proof -
  have "find (\<lambda>y. m_trigger y = trig) (pre @ x # post) = Some x"
    using assms(2,3) by (induction pre) auto
  then show ?thesis using assms(1) by (simp add: first_match_def)
qed

lemma find_filter_hd:
  "filter P xs = x # later \<Longrightarrow> find P xs = Some x"
  by (induction xs) (auto split: if_splits)

lemma GetState_SetState: "GetState (SetState s fsm) = s"
  by (simp add: SetState_def GetState_def)

subsection \<open>Registration\<close>

text \<open>
  After the loop of \<^verbatim>\<open>AddTransitions\<close> the vector of a state is what it was, followed by
  the transitions of the collection with that origin, in the order of the collection.
\<close>

lemma AddTransitions_loop_lookup:
  "AddTransitions_loop cs m k =
     (case filter (\<lambda>c. m_originState c = k) cs of
        [] \<Rightarrow> m k
      | x # xs \<Rightarrow> Some ((case m k of None \<Rightarrow> [] | Some v \<Rightarrow> v) @ x # xs))"
  by (induction cs arbitrary: m) (auto simp: emplace_back_def split: list.splits option.splits)

lemma FSM_default_initial:
  "GetState (FSM_default S0) = S0 \<and> IsInitial S0 (FSM_default S0)"
  by (simp add: GetState_def IsInitial_def FSM_default_def)

lemma FSM_collection_state: "GetState (FSM_collection S0 junk ts) = junk"
  by (simp add: GetState_def FSM_collection_def AddTransitions_def)

lemma SetState_collection:
  "SetState s (FSM_collection S0 junk ts) = FSM_collection S0 s ts"
  by (simp add: SetState_def FSM_collection_def AddTransitions_def)

subsection \<open>The two machines with a duplicated origin and trigger\<close>

lemma shadowed_table: "m_transitions shadowed_fsm A = Some [silent_to_C, counting_to_B]"
  by (simp add: shadowed_fsm_def AddTransitions_def FSM_default_def emplace_back_def
      silent_to_C_def counting_to_B_def)

lemma shadowed_current: "GetState shadowed_fsm = A"
  by (simp add: shadowed_fsm_def AddTransitions_def FSM_default_def GetState_def)

lemma shadowed_first_match: "first_match a shadowed_fsm = Some silent_to_C"
  by (simp add: first_match_def shadowed_current[unfolded GetState_def] shadowed_table)
     (simp add: silent_to_C_def)

lemma counting_table: "m_transitions counting_fsm A = Some [counting_to_B, silent_to_C]"
  by (simp add: counting_fsm_def AddTransitions_def FSM_default_def emplace_back_def
      silent_to_C_def counting_to_B_def)

lemma counting_current: "GetState counting_fsm = A"
  by (simp add: counting_fsm_def AddTransitions_def FSM_default_def GetState_def)

lemma counting_action: "function_call (m_action counting_to_B) A 0 = Returns 1"
  by (simp add: function_call_def counting_to_B_def)

lemma mixed_table: "m_transitions mixed_fsm A = Some [silent_on_b, counting_to_B]"
  by (simp add: mixed_fsm_def AddTransitions_def FSM_default_def emplace_back_def
      silent_on_b_def counting_to_B_def)

lemma mixed_current: "GetState mixed_fsm = A"
  by (simp add: mixed_fsm_def AddTransitions_def FSM_default_def GetState_def)

lemma triple_table:
  "m_transitions triple_fsm A = Some [silent_to_A, counting_to_B, silent_to_C]"
  by (simp add: triple_fsm_def AddTransitions_def FSM_default_def emplace_back_def
      silent_to_A_def counting_to_B_def silent_to_C_def)

lemma triple_current: "GetState triple_fsm = A"
  by (simp add: triple_fsm_def AddTransitions_def FSM_default_def GetState_def)

lemma triple_first_match: "first_match a triple_fsm = Some silent_to_A"
  by (simp add: first_match_def triple_current[unfolded GetState_def] triple_table)
     (simp add: silent_to_A_def)

lemma throwing_first_table:
  "m_transitions throwing_first_fsm A = Some [throwing_to_B, silent_to_C]"
  by (simp add: throwing_first_fsm_def AddTransitions_def FSM_default_def emplace_back_def
      throwing_to_B_def silent_to_C_def)

lemma throwing_first_current: "GetState throwing_first_fsm = A"
  by (simp add: throwing_first_fsm_def AddTransitions_def FSM_default_def GetState_def)

lemma throwing_first_match: "first_match a throwing_fsm = Some throwing_to_B"
  by (simp add: first_match_def throwing_fsm_def AddTransitions_def FSM_default_def
      emplace_back_def)
     (simp add: throwing_to_B_def)

lemma throwing_current: "GetState throwing_fsm = A"
  by (simp add: throwing_fsm_def AddTransitions_def FSM_default_def GetState_def)

subsection \<open>The example of the header, step by step\<close>

lemma example_table:
  "m_transitions (FSM_collection S0 junk example_transitions) =
     [A \<mapsto> [example_transitions ! 0], B \<mapsto> [example_transitions ! 1]]"
  by (simp add: FSM_collection_def AddTransitions_def example_transitions_def emplace_back_def)

lemma example_from_A:
  "Execute a (FSM_collection S0 A example_transitions) out =
     Returns (True, FSM_collection S0 B example_transitions,
       out @ [''perform action when transitioning from A to B.''])"
proof -
  let ?x = "example_transitions ! 0"
  have "first_match a (FSM_collection S0 A example_transitions) = Some ?x"
    by (simp add: first_match_def FSM_collection_state[unfolded GetState_def] example_table)
       (simp add: example_transitions_def)
  moreover have "perform_action ?x A out =
      Returns (out @ [''perform action when transitioning from A to B.''])"
    by (simp add: example_transitions_def perform_action_def function_call_def)
  moreover have "m_destinationState ?x = B"
    by (simp add: example_transitions_def)
  ultimately show ?thesis
    by (simp add: Execute_first_match FSM_collection_state SetState_collection)
qed

lemma example_from_B:
  "Execute b (FSM_collection S0 B example_transitions) out =
     Returns (True, FSM_collection S0 C example_transitions,
       out @ [''perform action when transitioning from B to C.''])"
proof -
  let ?x = "example_transitions ! 1"
  have "first_match b (FSM_collection S0 B example_transitions) = Some ?x"
    by (simp add: first_match_def FSM_collection_state[unfolded GetState_def] example_table)
       (simp add: example_transitions_def)
  moreover have "perform_action ?x B out =
      Returns (out @ [''perform action when transitioning from B to C.''])"
    by (simp add: example_transitions_def perform_action_def function_call_def)
  moreover have "m_destinationState ?x = C"
    by (simp add: example_transitions_def)
  ultimately show ?thesis
    by (simp add: Execute_first_match FSM_collection_state SetState_collection)
qed

lemma example_a_from_B:
  "Execute a (FSM_collection S0 B example_transitions) out =
     Returns (False, FSM_collection S0 B example_transitions, out)"
proof -
  have "first_match a (FSM_collection S0 B example_transitions) = None"
    by (simp add: first_match_def FSM_collection_state[unfolded GetState_def] example_table)
       (simp add: example_transitions_def)
  then show ?thesis
    by (simp add: Execute_first_match)
qed

text \<open>
  When the storage of the machine happens to hold \<open>A\<close>, the example runs as its
  assertions say.
\<close>

lemma example_scenario_initialised:
  "run A example_calls (FSM_collection A A example_transitions) [] =
     Returns ([Bool_value True, Bool_value True, State_value B, Bool_value True, State_value C,
               Void, Bool_value True],
              FSM_collection A A example_transitions,
              [''perform action when transitioning from A to B.'',
               ''perform action when transitioning from B to C.''])"
  by (simp add: example_calls_def IsInitial_def example_from_A example_from_B
        SetState_collection FSM_collection_state FSM_collection_state[unfolded GetState_def])

section \<open>The claims\<close>

subsection \<open>Construction\<close>

text \<open>
  C1. A freshly constructed machine with initial state \<open>S0\<close> should answer
  \<^verbatim>\<open>GetState() == S0\<close> and \<^verbatim>\<open>IsInitial() == true\<close>, whichever constructor built it.
  The default constructor does (\<open>FSM_default_initial\<close>). A constructor from a collection
  does not initialise \<^verbatim>\<open>m_currentState\<close>: built with the transitions of the header's
  example in storage that holds \<open>B\<close>, the machine with initial state \<open>A\<close> answers \<open>B\<close>,
  and \<^verbatim>\<open>IsInitial()\<close> is false.
\<close>

theorem collection_constructor_state_indeterminate:
  "GetState (FSM_collection A B example_transitions) = B
   \<and> IsInitial A (FSM_collection A B example_transitions) = False"
  by (simp add: FSM_collection_state IsInitial_def FSM_collection_state[unfolded GetState_def])

subsection \<open>Execute\<close>

text \<open>
  C2. The machine is in state \<open>origin\<close>, and the transition \<open>x\<close> from \<open>origin\<close> to
  \<open>destination\<close> on \<open>trig\<close> with action \<open>action\<close> is registered for \<open>origin\<close>, on
  the condition that no transition on \<open>trig\<close> is registered for \<open>origin\<close> before it. Then
  \<^verbatim>\<open>Execute(trig)\<close> calls \<open>action\<close> once, on the world as it is and while the machine is
  still in \<open>origin\<close>; when the action has returned, \<^verbatim>\<open>Execute\<close> returns true with the
  world the action left, and afterwards \<^verbatim>\<open>GetState()\<close> returns \<open>destination\<close>. An action
  that does not return ends the program.
\<close>

theorem Execute_first_registered:
  assumes "GetState fsm = origin"
    and "m_originState x = origin" and "m_destinationState x = destination"
    and "m_trigger x = trig" and "m_action x = Some action"
    and "m_transitions fsm origin = Some (pre @ x # post)"
    and "\<forall>y\<in>set pre. m_trigger y \<noteq> trig"
  shows "Execute trig fsm w =
      (case action origin w of
         Returns w' \<Rightarrow> Returns (True, SetState destination fsm, w')
       | Throws \<Rightarrow> Terminates
       | Terminates \<Rightarrow> Terminates)
    \<and> GetState (SetState destination fsm) = destination"
proof -
  have "first_match trig fsm = Some x"
    using assms(1,4,6,7) by (intro first_match_split[of fsm pre x post]) (simp_all add: GetState_def)
  moreover have "perform_action x (GetState fsm) w = action origin w"
    using assms(1,5) by (simp add: perform_action_def function_call_def)
  ultimately show ?thesis
    using assms(3) by (simp add: Execute_first_match GetState_SetState split: outcome.splits)
qed

text \<open>
  In \<open>mixed_fsm\<close> the counting transition is the first on \<open>a\<close> registered for \<open>A\<close>, behind
  one on \<open>b\<close>: one call of \<^verbatim>\<open>Execute(a)\<close> takes the counter from 0 to 1 and the
  machine to \<open>B\<close>.
\<close>

theorem Execute_first_registered_witness:
  "GetState mixed_fsm = A
   \<and> m_transitions mixed_fsm A = Some ([silent_on_b] @ counting_to_B # [])
   \<and> m_trigger silent_on_b \<noteq> a
   \<and> Execute a mixed_fsm 0 = Returns (True, SetState B mixed_fsm, 1)
   \<and> GetState (SetState B mixed_fsm) = B"
proof -
  have 1: "m_originState counting_to_B = A" "m_destinationState counting_to_B = B"
    "m_trigger counting_to_B = a" "m_action counting_to_B = Some (\<lambda>s n. Returns (Suc n))"
    by (simp_all add: counting_to_B_def)
  have 2: "m_transitions mixed_fsm A = Some ([silent_on_b] @ counting_to_B # [])"
    by (simp add: mixed_table)
  have 3: "\<forall>y\<in>set [silent_on_b]. m_trigger y \<noteq> a"
    by (simp add: silent_on_b_def)
  from Execute_first_registered[OF mixed_current 1 2 3, of 0] 2 3 show ?thesis
    by (simp add: mixed_current)
qed

text \<open>
  Without that condition C2 fails. In \<open>shadowed_fsm\<close> the transition to \<open>B\<close> on \<open>a\<close> is
  registered for \<open>A\<close>, the current state, and its action would take the counter to 1;
  \<^verbatim>\<open>Execute(a)\<close> returns true, leaves the counter at 0 and the machine in \<open>C\<close>, because
  the transition to \<open>C\<close> on \<open>a\<close> was registered before it.
\<close>

theorem Execute_registered_but_shadowed:
  "GetState shadowed_fsm = A
   \<and> m_transitions shadowed_fsm A = Some [silent_to_C, counting_to_B]
   \<and> m_originState counting_to_B = A \<and> m_destinationState counting_to_B = B
   \<and> m_trigger counting_to_B = a
   \<and> function_call (m_action counting_to_B) A 0 = Returns 1
   \<and> Execute a shadowed_fsm 0 = Returns (True, SetState C shadowed_fsm, 0)
   \<and> GetState (SetState C shadowed_fsm) \<noteq> B"
proof -
  have "perform_action silent_to_C A 0 = Returns 0"
    by (simp add: perform_action_def silent_to_C_def)
  moreover have "m_destinationState silent_to_C = C"
    by (simp add: silent_to_C_def)
  ultimately have "Execute a shadowed_fsm 0 = Returns (True, SetState C shadowed_fsm, 0)"
    by (simp add: Execute_first_match shadowed_first_match shadowed_current)
  then show ?thesis
    by (simp add: shadowed_table shadowed_current counting_action GetState_SetState)
       (simp add: counting_to_B_def)
qed

text \<open>
  C3. When the current state has no vector of transitions at all, or none of its
  transitions has the trigger \<open>t\<close>, \<^verbatim>\<open>Execute(t)\<close> returns false and the machine and the
  world are what they were: the state is unchanged and no action was called, whatever the
  actions of the table would do.
\<close>

theorem Execute_no_match:
  assumes "m_transitions fsm (GetState fsm) = None
     \<or> (\<exists>ts. m_transitions fsm (GetState fsm) = Some ts \<and> (\<forall>x\<in>set ts. m_trigger x \<noteq> t))"
  shows "Execute t fsm w = Returns (False, fsm, w)"
proof -
  have "first_match t fsm = None"
    using assms by (auto simp: first_match_def GetState_def find_None_iff)
  then show ?thesis by (simp add: Execute_first_match)
qed

text \<open>
  Both cases: in \<open>shadowed_fsm\<close> nothing is registered for \<open>C\<close>, and after
  \<^verbatim>\<open>SetState(C)\<close> the trigger \<open>a\<close> is refused; in the example the only transition
  registered for \<open>B\<close> has trigger \<open>b\<close>, and in \<open>B\<close> the trigger \<open>a\<close> is refused.
\<close>

theorem Execute_no_match_witness:
  "m_transitions (SetState C shadowed_fsm) (GetState (SetState C shadowed_fsm)) = None
   \<and> Execute a (SetState C shadowed_fsm) 0 = Returns (False, SetState C shadowed_fsm, 0)
   \<and> m_transitions (FSM_collection A B example_transitions)
         (GetState (FSM_collection A B example_transitions)) = Some [example_transitions ! 1]
   \<and> m_trigger (example_transitions ! 1) \<noteq> a
   \<and> Execute a (FSM_collection A B example_transitions) [] =
         Returns (False, FSM_collection A B example_transitions, [])"
proof -
  have 1: "m_transitions (SetState C shadowed_fsm) (GetState (SetState C shadowed_fsm)) = None"
    by (simp add: GetState_SetState)
       (simp add: SetState_def shadowed_fsm_def AddTransitions_def FSM_default_def
          emplace_back_def silent_to_C_def counting_to_B_def)
  have 2: "m_transitions (FSM_collection A B example_transitions)
         (GetState (FSM_collection A B example_transitions)) = Some [example_transitions ! 1]"
    by (simp add: FSM_collection_state example_table)
  have 3: "m_trigger (example_transitions ! 1) \<noteq> a"
    by (simp add: example_transitions_def)
  from Execute_no_match[of "SetState C shadowed_fsm" a 0]
    Execute_no_match[of "FSM_collection A B example_transitions" a "[]"] 1 2 3
  show ?thesis
    by simp
qed

text \<open>
  C4. Two transitions \<open>T1\<close> and then \<open>T2\<close> are registered, in that order, for the current
  state and the trigger \<open>trig\<close>, on the condition that no transition on \<open>trig\<close> is
  registered for that state before \<open>T1\<close>: of the transitions of the current state with
  that trigger, in the order of registration, \<open>T1\<close> is the first and \<open>T2\<close> is among the
  rest. (The vector of a state holds its transitions in the order of registration:
  \<open>AddTransitions_loop_lookup\<close>.) Then every \<^verbatim>\<open>Execute(trig)\<close> calls the action of \<open>T1\<close>,
  when it has one, once, on the world as it is and while the machine is still in the
  origin; when the action has returned, or there is none, \<^verbatim>\<open>Execute\<close> returns true and
  the machine is in the destination of \<open>T1\<close>. An action of \<open>T1\<close> that does not return
  ends the program. Neither \<open>T2\<close> nor any other duplicate has a part in the outcome,
  which is that of the one transition \<open>T1\<close>.
\<close>

theorem Execute_first_of_duplicates:
  assumes "m_transitions fsm (GetState fsm) = Some ts"
    and "filter (\<lambda>x. m_trigger x = trig) ts = T1 # rest"
    and "T2 \<in> set rest"
  shows "Execute trig fsm w =
     (case m_action T1 of
        None \<Rightarrow> Returns (True, SetState (m_destinationState T1) fsm, w)
      | Some action \<Rightarrow>
          (case action (GetState fsm) w of
             Returns w' \<Rightarrow> Returns (True, SetState (m_destinationState T1) fsm, w')
           | Throws \<Rightarrow> Terminates
           | Terminates \<Rightarrow> Terminates))"
proof -
  have "first_match trig fsm = Some T1"
    using assms(1,2) by (simp add: first_match_def GetState_def find_filter_hd)
  then show ?thesis
    by (simp add: Execute_first_match perform_action_def function_call_def
        split: option.splits outcome.splits)
qed

text \<open>
  In \<open>counting_fsm\<close> the counting transition is registered before \<open>silent_to_C\<close>: one
  \<^verbatim>\<open>Execute(a)\<close> takes the counter from 0 to 1 and the machine to \<open>B\<close>. In
  \<open>throwing_first_fsm\<close> the first of the two throws, and \<^verbatim>\<open>Execute(a)\<close> ends the
  program.
\<close>

theorem Execute_first_of_duplicates_witness:
  "m_transitions counting_fsm (GetState counting_fsm) = Some [counting_to_B, silent_to_C]
   \<and> filter (\<lambda>x. m_trigger x = a) [counting_to_B, silent_to_C] = [counting_to_B, silent_to_C]
   \<and> Execute a counting_fsm 0 = Returns (True, SetState B counting_fsm, 1)
   \<and> m_transitions throwing_first_fsm (GetState throwing_first_fsm)
        = Some [throwing_to_B, silent_to_C]
   \<and> filter (\<lambda>x. m_trigger x = a) [throwing_to_B, silent_to_C] = [throwing_to_B, silent_to_C]
   \<and> Execute a throwing_first_fsm 0 = Terminates"
proof -
  have 1: "m_transitions counting_fsm (GetState counting_fsm) = Some [counting_to_B, silent_to_C]"
    by (simp add: counting_current counting_table)
  have 2: "filter (\<lambda>x. m_trigger x = a) [counting_to_B, silent_to_C]
      = counting_to_B # [silent_to_C]"
    by (simp add: counting_to_B_def silent_to_C_def)
  have 3: "silent_to_C \<in> set [silent_to_C]"
    by simp
  have 4: "m_action counting_to_B = Some (\<lambda>s n. Returns (Suc n))"
    "m_destinationState counting_to_B = B"
    by (simp_all add: counting_to_B_def)
  have 5: "m_transitions throwing_first_fsm (GetState throwing_first_fsm)
      = Some [throwing_to_B, silent_to_C]"
    by (simp add: throwing_first_current throwing_first_table)
  have 6: "filter (\<lambda>x. m_trigger x = a) [throwing_to_B, silent_to_C]
      = throwing_to_B # [silent_to_C]"
    by (simp add: throwing_to_B_def silent_to_C_def)
  have 7: "m_action throwing_to_B = Some (\<lambda>s n. Throws)"
    by (simp add: throwing_to_B_def)
  from Execute_first_of_duplicates[OF 1 2 3, of 0]
    Execute_first_of_duplicates[OF 5 6 3, of 0] 1 2 4 5 6 7
  show ?thesis
    by simp
qed

text \<open>
  Without that condition C4 fails. In \<open>triple_fsm\<close> the transitions \<open>counting_to_B\<close> and
  then \<open>silent_to_C\<close> are registered, in that order, for \<open>A\<close> and \<open>a\<close>, and the action of
  the first of the two would take the counter to 1; \<^verbatim>\<open>Execute(a)\<close> in \<open>A\<close> returns true,
  leaves the counter at 0 and the machine in \<open>A\<close>, because \<open>silent_to_A\<close> was registered
  for \<open>A\<close> and \<open>a\<close> before both.
\<close>

theorem Execute_duplicates_behind_earlier:
  "GetState triple_fsm = A
   \<and> m_transitions triple_fsm A = Some [silent_to_A, counting_to_B, silent_to_C]
   \<and> m_originState counting_to_B = A \<and> m_trigger counting_to_B = a
   \<and> m_originState silent_to_C = A \<and> m_trigger silent_to_C = a
   \<and> m_destinationState counting_to_B = B
   \<and> function_call (m_action counting_to_B) A 0 = Returns 1
   \<and> Execute a triple_fsm 0 = Returns (True, SetState A triple_fsm, 0)
   \<and> GetState (SetState A triple_fsm) \<noteq> m_destinationState counting_to_B"
proof -
  have "perform_action silent_to_A A 0 = Returns 0"
    by (simp add: perform_action_def silent_to_A_def)
  moreover have "m_destinationState silent_to_A = A"
    by (simp add: silent_to_A_def)
  ultimately have "Execute a triple_fsm 0 = Returns (True, SetState A triple_fsm, 0)"
    by (simp add: Execute_first_match triple_first_match triple_current)
  moreover have "m_originState silent_to_C = A" "m_trigger silent_to_C = a"
    by (simp_all add: silent_to_C_def)
  ultimately show ?thesis
    by (simp add: triple_table triple_current counting_action GetState_SetState)
       (simp add: counting_to_B_def)
qed

text \<open>
  C10. When the first match \<open>x\<close> for the trigger has an empty \<^verbatim>\<open>std::function\<close> as its
  action, \<^verbatim>\<open>Execute\<close> does not call it (the call would throw
  \<^verbatim>\<open>std::bad_function_call\<close> and end the program): it returns true, the world is what it
  was, and the current state is the destination of \<open>x\<close>.
\<close>

theorem Execute_absent_action:
  assumes "first_match trig fsm = Some x" and "m_action x = None"
  shows "Execute trig fsm w = Returns (True, SetState (m_destinationState x) fsm, w)
    \<and> GetState (SetState (m_destinationState x) fsm) = m_destinationState x
    \<and> function_call (m_action x) (GetState fsm) w = Throws"
  using assms
  by (simp add: Execute_first_match perform_action_def GetState_SetState function_call_def)

theorem Execute_absent_action_witness:
  "first_match a shadowed_fsm = Some silent_to_C
   \<and> m_action silent_to_C = None
   \<and> Execute a shadowed_fsm 0 = Returns (True, SetState C shadowed_fsm, 0)
   \<and> GetState (SetState C shadowed_fsm) = C"
proof -
  have 1: "m_action silent_to_C = None" and 2: "m_destinationState silent_to_C = C"
    by (simp_all add: silent_to_C_def)
  from Execute_absent_action[OF shadowed_first_match 1, of 0] 1 2 show ?thesis
    by (simp add: shadowed_first_match)
qed

text \<open>
  C9. No exception leaves \<^verbatim>\<open>Execute\<close>, whatever the trigger, the table and its actions.
  When it returns, the bool tells whether a transition occurred: true exactly when the
  current state has a transition with that trigger, and then the machine is in the
  destination of the first such transition; false leaves the machine and the world as
  they were. The one other outcome is the end of the program, and only when the action of
  the first match was called and did not return.
\<close>

theorem Execute_never_throws:
  "Execute trig fsm w \<noteq> Throws
   \<and> (\<forall>success fsm' w'. Execute trig fsm w = Returns (success, fsm', w') \<longrightarrow>
        (success \<longleftrightarrow> first_match trig fsm \<noteq> None)
        \<and> (success \<longrightarrow>
             (\<exists>x. first_match trig fsm = Some x \<and> fsm' = SetState (m_destinationState x) fsm))
        \<and> (\<not> success \<longrightarrow> fsm' = fsm \<and> w' = w))
   \<and> (Execute trig fsm w = Terminates \<longrightarrow>
        (\<exists>x action. first_match trig fsm = Some x \<and> m_action x = Some action
           \<and> (\<forall>w'. action (GetState fsm) w \<noteq> Returns w')))"
  by (auto simp: Execute_first_match perform_action_def function_call_def
      split: option.splits outcome.splits)

text \<open>
  In the example \<^verbatim>\<open>Execute(b)\<close> in \<open>B\<close> returns true; in \<open>throwing_fsm\<close> the action of
  the first match throws, and \<^verbatim>\<open>Execute(a)\<close> ends the program.
\<close>

theorem Execute_never_throws_witness:
  "Execute b (FSM_collection A B example_transitions) [] \<noteq> Throws
   \<and> Execute b (FSM_collection A B example_transitions) [] =
       Returns (True, FSM_collection A C example_transitions,
         [''perform action when transitioning from B to C.''])
   \<and> first_match b (FSM_collection A B example_transitions) \<noteq> None
   \<and> Execute a throwing_fsm 0 \<noteq> Throws
   \<and> Execute a throwing_fsm 0 = Terminates
   \<and> first_match a throwing_fsm = Some throwing_to_B"
proof -
  have "perform_action throwing_to_B A 0 = Throws"
    by (simp add: perform_action_def function_call_def throwing_to_B_def)
  then have "Execute a throwing_fsm 0 = Terminates"
    by (simp add: Execute_first_match throwing_first_match throwing_current)
  with Execute_never_throws[of b "FSM_collection A B example_transitions" "[]"]
    Execute_never_throws[of a throwing_fsm 0]
  show ?thesis
    by (auto simp: example_from_B throwing_first_match)
qed

subsection \<open>SetState and the frame of the current state\<close>

text \<open>
  C6. \<^verbatim>\<open>SetState(x)\<close> overwrites the current state, so that \<^verbatim>\<open>GetState()\<close> returns
  \<open>x\<close> whatever the table holds; the table is not changed, the call returns, and the
  world is what it was: no action was called.
\<close>

theorem SetState_overwrites:
  "GetState (SetState x fsm) = x
   \<and> m_transitions (SetState x fsm) = m_transitions fsm
   \<and> invoke Initial (Call_SetState x) fsm w = Returns (Void, SetState x fsm, w)"
  by (simp add: GetState_def SetState_def)

theorem SetState_overwrites_witness:
  "GetState (SetState C shadowed_fsm) = C
   \<and> m_transitions (SetState C shadowed_fsm) A = Some [silent_to_C, counting_to_B]
   \<and> invoke A (Call_SetState C) shadowed_fsm 0 = Returns (Void, SetState C shadowed_fsm, 0)"
  using SetState_overwrites[of C shadowed_fsm A 0]
  by (simp add: shadowed_table)

text \<open>
  C7. Only a successful \<^verbatim>\<open>Execute\<close> and \<^verbatim>\<open>SetState\<close> change the current state:
  \<^verbatim>\<open>AddTransitions\<close> leaves it, an \<^verbatim>\<open>Execute\<close> that returns false leaves it, and a
  call of the interface after which it differs is a \<^verbatim>\<open>SetState\<close> or an \<^verbatim>\<open>Execute\<close>
  that returned true (\<^verbatim>\<open>GetState\<close> and \<^verbatim>\<open>IsInitial\<close> are const members).
\<close>

theorem current_state_frame:
  "GetState (AddTransitions xs fsm) = GetState fsm
   \<and> invoke Initial Call_GetState fsm w = Returns (State_value (GetState fsm), fsm, w)
   \<and> invoke Initial Call_IsInitial fsm w = Returns (Bool_value (IsInitial Initial fsm), fsm, w)
   \<and> (Execute t fsm w = Returns (False, fsm1, w1) \<longrightarrow> GetState fsm1 = GetState fsm)
   \<and> (invoke Initial c fsm w = Returns (r, fsm', w') \<longrightarrow>
        GetState fsm' = GetState fsm
        \<or> (\<exists>x. c = Call_SetState x)
        \<or> (\<exists>t. c = Call_Execute t \<and> r = Bool_value True))"
proof -
  have "GetState (AddTransitions xs fsm) = GetState fsm"
    by (simp add: GetState_def AddTransitions_def)
  moreover have "Execute t fsm w = Returns (False, fsm1, w1) \<longrightarrow> GetState fsm1 = GetState fsm"
    by (auto simp: Execute_first_match split: option.splits outcome.splits)
  moreover have "invoke Initial c fsm w = Returns (r, fsm', w') \<longrightarrow>
        GetState fsm' = GetState fsm
        \<or> (\<exists>x. c = Call_SetState x)
        \<or> (\<exists>t. c = Call_Execute t \<and> r = Bool_value True)"
    by (cases c) (auto simp: Execute_first_match GetState_def AddTransitions_def
        split: option.splits outcome.splits)
  ultimately show ?thesis by simp
qed

text \<open>
  The example's machine in \<open>B\<close>: adding transitions, \<^verbatim>\<open>GetState\<close>, \<^verbatim>\<open>IsInitial\<close> and
  the refused \<^verbatim>\<open>Execute(a)\<close> leave it in \<open>B\<close>.
\<close>

theorem current_state_frame_witness:
  "GetState (AddTransitions example_transitions (FSM_collection A B example_transitions)) = B
   \<and> invoke A Call_GetState (FSM_collection A B example_transitions) [] =
       Returns (State_value B, FSM_collection A B example_transitions, [])
   \<and> invoke A Call_IsInitial (FSM_collection A B example_transitions) [] =
       Returns (Bool_value False, FSM_collection A B example_transitions, [])
   \<and> Execute a (FSM_collection A B example_transitions) [] =
       Returns (False, FSM_collection A B example_transitions, [])
   \<and> invoke A (Call_Execute a) (FSM_collection A B example_transitions) [] =
       Returns (Bool_value False, FSM_collection A B example_transitions, [])
   \<and> GetState (FSM_collection A B example_transitions) = B"
  using current_state_frame[of example_transitions "FSM_collection A B example_transitions" A "[]"
      a "FSM_collection A B example_transitions" "[]" "Call_Execute a" "Bool_value False"
      "FSM_collection A B example_transitions" "[]"]
  by (simp add: example_a_from_B FSM_collection_state IsInitial_def
      FSM_collection_state[unfolded GetState_def])

subsection \<open>Where the current state can be\<close>

lemma referenced_SetState: "referenced (SetState s fsm) = referenced fsm"
  by (simp add: referenced_def SetState_def)

lemma emplace_back_keeps:
  assumes "m k = Some ts"
  shows "\<exists>ts'. emplace_back c m k = Some ts' \<and> set ts \<subseteq> set ts'"
  using assms by (auto simp: emplace_back_def)

lemma AddTransitions_loop_keeps:
  assumes "m k = Some ts"
  shows "\<exists>ts'. AddTransitions_loop cs m k = Some ts' \<and> set ts \<subseteq> set ts'"
  using assms
proof (induction cs arbitrary: m ts)
  case Nil
  then show ?case by simp
next
  case (Cons c cs)
  from emplace_back_keeps[of m k ts c] Cons.prems
  obtain ts1 where 1: "emplace_back c m k = Some ts1" and 2: "set ts \<subseteq> set ts1" by blast
  from Cons.IH[of "emplace_back c m" ts1] 1 obtain ts' where
    "AddTransitions_loop cs (emplace_back c m) k = Some ts'" and "set ts1 \<subseteq> set ts'" by blast
  with 2 show ?case by auto
qed

lemma referenced_AddTransitions: "referenced fsm \<subseteq> referenced (AddTransitions cs fsm)"
proof
  fix s assume "s \<in> referenced fsm"
  then obtain k ts x where k: "m_transitions fsm k = Some ts" and x: "x \<in> set ts"
    and s: "s = m_originState x \<or> s = m_destinationState x"
    by (auto simp: referenced_def ran_def)
  from AddTransitions_loop_keeps[of "m_transitions fsm" k ts cs] k obtain ts' where
    "AddTransitions_loop cs (m_transitions fsm) k = Some ts'" and "set ts \<subseteq> set ts'" by blast
  with x s show "s \<in> referenced (AddTransitions cs fsm)"
    by (auto simp: referenced_def ran_def AddTransitions_def)
qed

lemma first_match_registered:
  assumes "first_match trig fsm = Some x"
  shows "m_destinationState x \<in> referenced fsm"
proof -
  from assms obtain ts where ts: "m_transitions fsm (m_currentState fsm) = Some ts"
    and "find (\<lambda>y. m_trigger y = trig) ts = Some x"
    by (auto simp: first_match_def split: option.splits)
  then have "x \<in> set ts"
    by (auto simp: find_Some_iff)
  with ts show ?thesis
    by (auto simp: referenced_def ran_def)
qed

lemma Execute_invariant:
  assumes "Execute trig fsm w = Returns (success, fsm', w')"
    and "GetState fsm = Initial \<or> GetState fsm \<in> referenced fsm \<or> GetState fsm \<in> S"
  shows "GetState fsm' = Initial \<or> GetState fsm' \<in> referenced fsm' \<or> GetState fsm' \<in> S"
proof (cases "first_match trig fsm")
  case None
  with assms show ?thesis by (simp add: Execute_first_match)
next
  case (Some x)
  with assms(1) have "fsm' = SetState (m_destinationState x) fsm"
    by (auto simp: Execute_first_match split: outcome.splits)
  with first_match_registered[OF Some] show ?thesis
    by (simp add: referenced_SetState GetState_SetState)
qed

lemma invoke_invariant:
  assumes "invoke Initial c fsm w = Returns (r, fsm', w')"
    and "GetState fsm = Initial \<or> GetState fsm \<in> referenced fsm \<or> GetState fsm \<in> S"
  shows "GetState fsm' = Initial \<or> GetState fsm' \<in> referenced fsm'
     \<or> GetState fsm' \<in> S \<union> SetState_arguments [c]"
proof (cases c)
  case (Call_AddTransitions xs)
  with assms(1) have "fsm' = AddTransitions xs fsm" by simp
  moreover have "GetState (AddTransitions xs fsm) = GetState fsm"
    by (simp add: GetState_def AddTransitions_def)
  ultimately show ?thesis
    using assms(2) referenced_AddTransitions[of fsm xs] by auto
next
  case Call_GetState
  with assms show ?thesis by auto
next
  case (Call_SetState x)
  with assms show ?thesis by (auto simp: GetState_def SetState_def)
next
  case Call_IsInitial
  with assms show ?thesis by auto
next
  case (Call_Execute trig)
  with assms(1) obtain success where "Execute trig fsm w = Returns (success, fsm', w')"
    by (auto split: outcome.splits)
  from Execute_invariant[OF this assms(2)] show ?thesis by auto
qed

lemma SetState_arguments_Cons:
  "SetState_arguments (c # cs) = SetState_arguments [c] \<union> SetState_arguments cs"
  by (cases c) auto

lemma run_invariant:
  assumes "run Initial cs fsm w = Returns (rs, fsm', w')"
    and "GetState fsm = Initial \<or> GetState fsm \<in> referenced fsm \<or> GetState fsm \<in> S"
  shows "GetState fsm' = Initial \<or> GetState fsm' \<in> referenced fsm'
     \<or> GetState fsm' \<in> S \<union> SetState_arguments cs"
  using assms
proof (induction cs arbitrary: fsm w rs S)
  case Nil
  then show ?case by auto
next
  case (Cons c cs)
  from Cons.prems(1) obtain r fsm1 w1 rs1 where
    1: "invoke Initial c fsm w = Returns (r, fsm1, w1)" and
    2: "run Initial cs fsm1 w1 = Returns (rs1, fsm', w')"
    by (auto split: outcome.splits)
  from invoke_invariant[OF 1 Cons.prems(2)]
  have "GetState fsm1 = Initial \<or> GetState fsm1 \<in> referenced fsm1
     \<or> GetState fsm1 \<in> S \<union> SetState_arguments [c]" .
  from Cons.IH[OF 2 this] show ?case
    by (subst SetState_arguments_Cons) auto
qed

lemma AddTransitions_default:
  "AddTransitions ts (FSM_default S0) = FSM_collection S0' S0 ts"
  by (simp add: FSM_default_def FSM_collection_def)

text \<open>
  C8. A machine built by the default constructor has gone through any
  sequence of calls of its interface, each of which returned. Then its current state is
  the initial state, or a state that a registered transition names as its origin or
  destination, or a state that one of the \<^verbatim>\<open>SetState\<close> calls of the sequence was given.
\<close>

theorem current_state_initial_referenced_or_set:
  assumes "run Initial cs (FSM_default Initial) w = Returns (rs, fsm, w')"
  shows "GetState fsm = Initial \<or> GetState fsm \<in> referenced fsm
     \<or> GetState fsm \<in> SetState_arguments cs"
  using run_invariant[OF assms, of "{}"] by (simp add: FSM_default_initial)

text \<open>
  The transitions of the example are added to a default-constructed machine and \<open>a\<close> is
  executed: the machine is in \<open>B\<close>, which the first transition names.
\<close>

theorem current_state_initial_referenced_or_set_witness:
  "run A [Call_AddTransitions example_transitions, Call_Execute a] (FSM_default A) [] =
     Returns ([Void, Bool_value True], FSM_collection A B example_transitions,
       [''perform action when transitioning from A to B.''])
   \<and> B \<in> referenced (FSM_collection A B example_transitions)"
proof -
  have 1: "run A [Call_AddTransitions example_transitions, Call_Execute a] (FSM_default A) [] =
     Returns ([Void, Bool_value True], FSM_collection A B example_transitions,
       [''perform action when transitioning from A to B.''])"
    by (simp add: AddTransitions_default[of _ _ A] example_from_A)
  from current_state_initial_referenced_or_set[OF 1] 1 show ?thesis
    by (simp add: FSM_collection_state)
qed

text \<open>
  Without the third alternative C8 fails: on a default-constructed machine with initial
  state \<open>A\<close> and no transition, \<^verbatim>\<open>SetState(C)\<close> returns and the current state is \<open>C\<close>,
  which is neither the initial state nor named by a registered transition.
\<close>

theorem SetState_unreferenced_state:
  "run A [Call_SetState C] (FSM_default A) (0::nat)
     = Returns ([Void], SetState C (FSM_default A), 0)
   \<and> GetState (SetState C (FSM_default A) :: (States, Triggers, nat) FSM) \<noteq> A
   \<and> GetState (SetState C (FSM_default A) :: (States, Triggers, nat) FSM)
        \<notin> referenced (SetState C (FSM_default A) :: (States, Triggers, nat) FSM)"
  by (simp add: GetState_def SetState_def FSM_default_def referenced_def)

subsection \<open>The example of the header, as a whole\<close>

text \<open>
  C5. The example builds the machine from its two transitions with initial state \<open>A\<close>
  and asserts, in sequence: \<^verbatim>\<open>IsInitial()\<close>; \<^verbatim>\<open>Execute(a)\<close> is true and the state is
  \<open>B\<close>; \<^verbatim>\<open>Execute(b)\<close> is true and the state is \<open>C\<close>; after \<^verbatim>\<open>SetState(A)\<close>,
  \<^verbatim>\<open>IsInitial()\<close>. The constructor from a collection leaves the current state as the
  storage held it (see C1). With \<open>B\<close> there, \<^verbatim>\<open>IsInitial()\<close> is false, \<^verbatim>\<open>Execute(a)\<close>
  returns false and its action is not performed; the rest goes as asserted. With \<open>A\<close>
  there the whole sequence goes as asserted (\<open>example_scenario_initialised\<close>).
\<close>

theorem example_scenario_indeterminate:
  "run A example_calls (FSM_collection A B example_transitions) [] =
     Returns ([Bool_value False, Bool_value False, State_value B, Bool_value True, State_value C,
               Void, Bool_value True],
              FSM_collection A A example_transitions,
              [''perform action when transitioning from B to C.''])"
  by (simp add: example_calls_def IsInitial_def example_a_from_B example_from_B
        SetState_collection FSM_collection_state FSM_collection_state[unfolded GetState_def])

end
